theory Spec2Isabelle
  imports Main "HOL-Library.Sublist"
begin

section \<open>Python values, exceptions and strings\<close>

text \<open>
  The values that \<open>json.loads\<close> produces and that the dispatch loop of
  \<open>agent_app.py\<close> passes around: \<open>None\<close>, booleans, integers, floats, strings, lists
  and dictionaries with string keys. A float is identified by its \<open>repr\<close> (the shortest
  decimal text that reads back to it); no float arithmetic is done by the code modelled here.
  A dictionary is an association list read through \<open>map_of\<close>.
\<close>

datatype pyval =
    PNone
  | PBool bool
  | PInt int
  | PFloat string
  | PStr string
  | PList "pyval list"
  | PDict "(string \<times> pyval) list"

text \<open>
  Exceptions, by the classes that the handlers of \<open>agent_app.py\<close> tell apart:
  \<open>TypeError\<close> and \<open>json.JSONDecodeError\<close> have their own \<open>except\<close> clauses,
  \<open>AttributeError\<close> is what a missing method raises, \<open>Exception\<close> stands for every other
  class below \<open>Exception\<close> (\<open>RuntimeError\<close>, \<open>requests.HTTPError\<close>, ...), and
  \<open>BaseException\<close> for the classes outside it (\<open>KeyboardInterrupt\<close>, \<open>SystemExit\<close>).
  The payload is \<open>str(e)\<close>.
\<close>

datatype exn =
    TypeError string
  | AttributeError string
  | JSONDecodeError string
  | Exception string
  | BaseException string

fun exn_str :: "exn \<Rightarrow> string" where
  "exn_str (TypeError m) = m"
| "exn_str (AttributeError m) = m"
| "exn_str (JSONDecodeError m) = m"
| "exn_str (Exception m) = m"
| "exn_str (BaseException m) = m"

definition sq :: char where
  "sq = CHR 0x27"

text \<open>
  \<open>str.isspace\<close> on the code points below 256: tab to carriage return, the four
  separators \<open>0x1c\<close> to \<open>0x1f\<close>, space, \<open>0x85\<close> and \<open>0xa0\<close>.
\<close>

definition is_space :: "char \<Rightarrow> bool" where
  "is_space c = (of_char c \<in> set [9, 10, 11, 12, 13, 28, 29, 30, 31, 32, 133, 160 :: nat])"

text \<open>\<open>str.strip()\<close>: leading and trailing whitespace removed.\<close>

definition strip :: "string \<Rightarrow> string" where
  "strip s = rev (dropWhile is_space (rev (dropWhile is_space s)))"

text \<open>\<open>str.lower()\<close> on the code points below 256.\<close>

definition lower_char :: "char \<Rightarrow> char" where
  "lower_char c =
     (let n = (of_char c :: nat)
      in if (65 \<le> n \<and> n \<le> 90) \<or> (192 \<le> n \<and> n \<le> 222 \<and> n \<noteq> 215)
         then char_of (n + 32) else c)"

definition lower :: "string \<Rightarrow> string" where
  "lower s = map lower_char s"

text \<open>\<open>sep.join(parts)\<close>.\<close>

fun join :: "string \<Rightarrow> string list \<Rightarrow> string" where
  "join sep [] = []"
| "join sep [p] = p"
| "join sep (p # q # ps) = p @ sep @ join sep (q # ps)"

text \<open>\<open>k in s\<close> on two strings: \<open>k\<close> occurs in \<open>s\<close> as a contiguous substring.\<close>

fun str_contains :: "string \<Rightarrow> string \<Rightarrow> bool" where
  "str_contains k [] = (k = [])"
| "str_contains k (c # cs) = (prefix k (c # cs) \<or> str_contains k cs)"

text \<open>\<open>type(v).__name__\<close>, as it appears in the interpreter's error messages.\<close>

fun type_name :: "pyval \<Rightarrow> string" where
  "type_name PNone = ''NoneType''"
| "type_name (PBool b) = ''bool''"
| "type_name (PInt i) = ''int''"
| "type_name (PFloat r) = ''float''"
| "type_name (PStr s) = ''str''"
| "type_name (PList xs) = ''list''"
| "type_name (PDict d) = ''dict''"

text \<open>Truth value of an object, as \<open>or\<close> and \<open>not\<close> test it.\<close>

fun truthy :: "pyval \<Rightarrow> bool" where
  "truthy PNone = False"
| "truthy (PBool b) = b"
| "truthy (PInt i) = (i \<noteq> 0)"
| "truthy (PFloat r) = (r \<noteq> ''0.0'' \<and> r \<noteq> ''-0.0'')"
| "truthy (PStr s) = (s \<noteq> [])"
| "truthy (PList xs) = (xs \<noteq> [])"
| "truthy (PDict d) = (d \<noteq> [])"

text \<open>
  \<open>key in obj\<close> for a string key: key test on a dictionary, element test on a list,
  substring test on a string, \<open>TypeError\<close> on an object that is not iterable.
\<close>

fun py_in :: "string \<Rightarrow> pyval \<Rightarrow> exn + bool" where
  "py_in k (PDict d) = Inr (map_of d k \<noteq> None)"
| "py_in k (PList xs) = Inr (PStr k \<in> set xs)"
| "py_in k (PStr s) = Inr (str_contains k s)"
| "py_in k v =
     Inl (TypeError (''argument of type '' @ [sq] @ type_name v @ [sq] @ '' is not iterable''))"

text \<open>\<open>obj[key]\<close> for a string key.\<close>

fun py_getitem :: "pyval \<Rightarrow> string \<Rightarrow> exn + pyval" where
  "py_getitem (PDict d) k =
     (case map_of d k of
        Some v \<Rightarrow> Inr v
      | None \<Rightarrow> Inl (Exception ([sq] @ k @ [sq])))"
| "py_getitem (PList xs) k =
     Inl (TypeError ''list indices must be integers or slices, not str'')"
| "py_getitem (PStr s) k =
     Inl (TypeError (''string indices must be integers, not '' @ [sq] @ ''str'' @ [sq]))"
| "py_getitem v k =
     Inl (TypeError ([sq] @ type_name v @ [sq] @ '' object is not subscriptable''))"

text \<open>\<open>obj.get(key, default)\<close>: only a dictionary has the method.\<close>

fun py_get :: "pyval \<Rightarrow> string \<Rightarrow> pyval \<Rightarrow> exn + pyval" where
  "py_get (PDict d) k dflt = Inr (case map_of d k of Some v \<Rightarrow> v | None \<Rightarrow> dflt)"
| "py_get v k dflt =
     Inl (AttributeError
       ([sq] @ type_name v @ [sq] @ '' object has no attribute '' @ [sq] @ ''get'' @ [sq]))"

section \<open>The outside world\<close>

text \<open>
  What the dispatch loop calls but does not define: the standard library
  (\<open>json.loads\<close>, \<open>json.dumps(_, indent=2)\<close>, \<open>repr\<close>), the chat completion service
  behind \<open>_hf_chat\<close>, and the bodies of the six implementation functions of
  \<open>map_servers\<close>, which send one HTTP request each and reshape the reply. The remote
  services may answer differently from one call to the next, so each takes the number
  of calls made before it.
\<close>

record env =
  json_loads :: "string \<Rightarrow> exn + pyval"
  json_dumps :: "pyval \<Rightarrow> string"
  py_repr :: "pyval \<Rightarrow> string"
  chat_completion :: "nat \<Rightarrow> (string \<times> string) list \<Rightarrow> nat \<Rightarrow> exn + string"
  tool_body :: "nat \<Rightarrow> string \<Rightarrow> (string \<times> pyval) list \<Rightarrow> exn + pyval"

text \<open>
  The effects of a run, in order: the calls of \<open>_hf_chat\<close> (messages and
  \<open>max_tokens\<close>), the evaluations of \<open>tool_fn(**args)\<close> (tool name and the object
  passed as \<open>args\<close>), the executions of an implementation body (function name and bound
  parameters; the only code that contacts a map service), and the texts written to the
  terminal.
\<close>

record trace =
  chat_calls :: "((string \<times> string) list \<times> nat) list"
  tool_calls :: "(string \<times> pyval) list"
  body_runs :: "(string \<times> (string \<times> pyval) list) list"
  stdout :: "string list"

text \<open>\<open>str(v)\<close>, as an f-string formats a value: a string is itself, the rest is its \<open>repr\<close>.\<close>

definition py_str :: "env \<Rightarrow> pyval \<Rightarrow> string" where
  "py_str E v = (case v of PStr s \<Rightarrow> s | _ \<Rightarrow> py_repr E v)"

definition MODEL_ID :: string where
  "MODEL_ID = ''meta-llama/Meta-Llama-3-8B-Instruct''"

text \<open>\<open>_hf_chat\<close>: one call of the chat completion service; a failure of the service is raised.\<close>

definition hf_chat ::
  "env \<Rightarrow> (string \<times> string) list \<Rightarrow> nat \<Rightarrow> trace \<Rightarrow> (exn + string) \<times> trace" where
  "hf_chat E messages max_tokens tr =
     (chat_completion E (length (chat_calls tr)) messages max_tokens,
      tr\<lparr>chat_calls := chat_calls tr @ [(messages, max_tokens)]\<rparr>)"

section \<open>The tool registry\<close>

text \<open>
  \<open>_tool_schema()\<close>: for each tool, in the order of the dictionary, its description and
  the description of each argument.
\<close>

definition tool_schema :: "(string \<times> string \<times> (string \<times> string) list) list" where
  "tool_schema =
    [(''osm_geocode'',
      ''Forward geocode a free-text place or address using OpenStreetMap Nominatim.'',
      [(''query'', ''string (required) - address or place name, e.g. 'Berlin, Germany'.''),
       (''limit'', ''integer (optional, default=5) - max number of results (1-10).'')]),
     (''osm_reverse_geocode'',
      ''Reverse geocode coordinates to an address using OpenStreetMap Nominatim.'',
      [(''lat'', ''float (required) - latitude in decimal degrees.''),
       (''lon'', ''float (required) - longitude in decimal degrees.''),
       (''zoom'', ''integer (optional, default=18) - detail level (3-18).'')]),
     (''osm_search_poi'',
      ''Search points-of-interest (POI) around a coordinate using Overpass API.'',
      [(''lat'', ''float (required) - center latitude.''),
       (''lon'', ''float (required) - center longitude.''),
       (''radius_m'', ''integer (optional, default=500) - radius in meters (50-5000).''),
       (''key'', ''string (optional, default='amenity') - OSM tag key.''),
       (''value'', ''string (optional, default='restaurant') - OSM tag value.''),
       (''limit'', ''integer (optional, default=20) - max results (1-50).'')]),
     (''osrm_route_driving'',
      ''Get a driving route between two coordinates using OSRM.'',
      [(''start_lat'', ''float (required)''),
       (''start_lon'', ''float (required)''),
       (''end_lat'', ''float (required)''),
       (''end_lon'', ''float (required)'')]),
     (''osrm_route_cycling'',
      ''Get a cycling route between two coordinates using OSRM.'',
      [(''start_lat'', ''float (required)''),
       (''start_lon'', ''float (required)''),
       (''end_lat'', ''float (required)''),
       (''end_lon'', ''float (required)'')]),
     (''osrm_nearest_road'',
      ''Snap a coordinate to the nearest road using OSRM.'',
      [(''lat'', ''float (required)''),
       (''lon'', ''float (required)''),
       (''profile'',
        ''string (optional, default='driving') - OSRM profile (driving, bike, foot).'')])]"

text \<open>
  A Python function as the call \<open>fn(**args)\<close> sees it: its name and its parameters in
  order, each with its default value if it has one.
\<close>

record callable =
  fn_name :: string
  fn_params :: "(string \<times> pyval option) list"

text \<open>The signatures of \<open>map_servers/osrm_server.py\<close>.\<close>

definition osrm_route_driving_impl :: callable where
  "osrm_route_driving_impl =
     \<lparr>fn_name = ''osrm_route_driving_impl'',
      fn_params = [(''start_lat'', None), (''start_lon'', None),
                   (''end_lat'', None), (''end_lon'', None)]\<rparr>"

definition osrm_route_cycling_impl :: callable where
  "osrm_route_cycling_impl =
     \<lparr>fn_name = ''osrm_route_cycling_impl'',
      fn_params = [(''start_lat'', None), (''start_lon'', None),
                   (''end_lat'', None), (''end_lon'', None)]\<rparr>"

definition osrm_nearest_road_impl :: callable where
  "osrm_nearest_road_impl =
     \<lparr>fn_name = ''osrm_nearest_road_impl'',
      fn_params = [(''lat'', None), (''lon'', None),
                   (''profile'', Some (PStr ''driving''))]\<rparr>"

text \<open>
  Modelled from the spec: \<open>map_servers/osm_server.py\<close> is not among the sources. The
  parameters of its three implementation functions, and which of them are required, are
  those that \<open>_tool_schema\<close> of \<open>agent_app.py\<close> lists for the tool and that
  \<open>tests/test_osm_server.py\<close> passes by keyword.
\<close>

definition osm_geocode_impl :: callable where
  "osm_geocode_impl =
     \<lparr>fn_name = ''osm_geocode_impl'',
      fn_params = [(''query'', None), (''limit'', Some (PInt 5))]\<rparr>"

definition osm_reverse_geocode_impl :: callable where
  "osm_reverse_geocode_impl =
     \<lparr>fn_name = ''osm_reverse_geocode_impl'',
      fn_params = [(''lat'', None), (''lon'', None), (''zoom'', Some (PInt 18))]\<rparr>"

definition osm_search_poi_impl :: callable where
  "osm_search_poi_impl =
     \<lparr>fn_name = ''osm_search_poi_impl'',
      fn_params = [(''lat'', None), (''lon'', None), (''radius_m'', Some (PInt 500)),
                   (''key'', Some (PStr ''amenity'')), (''value'', Some (PStr ''restaurant'')),
                   (''limit'', Some (PInt 20))]\<rparr>"

definition TOOL_FUNCTIONS :: "(string \<times> callable) list" where
  "TOOL_FUNCTIONS =
    [(''osm_geocode'', osm_geocode_impl),
     (''osm_reverse_geocode'', osm_reverse_geocode_impl),
     (''osm_search_poi'', osm_search_poi_impl),
     (''osrm_route_driving'', osrm_route_driving_impl),
     (''osrm_route_cycling'', osrm_route_cycling_impl),
     (''osrm_nearest_road'', osrm_nearest_road_impl)]"

text \<open>
  The test \<open>tool_name not in TOOL_FUNCTIONS\<close> followed by \<open>TOOL_FUNCTIONS[tool_name]\<close>:
  the dictionary hashes the key first, which a list or a dictionary refuses; a key that
  is not a string equals none of the six names.
\<close>

fun lookup_tool :: "pyval \<Rightarrow> exn + callable option" where
  "lookup_tool (PStr s) = Inr (map_of TOOL_FUNCTIONS s)"
| "lookup_tool (PList xs) = Inl (TypeError (''unhashable type: '' @ [sq] @ ''list'' @ [sq]))"
| "lookup_tool (PDict d) = Inl (TypeError (''unhashable type: '' @ [sq] @ ''dict'' @ [sq]))"
| "lookup_tool v = Inr None"

subsection \<open>Binding keyword arguments\<close>

text \<open>
  The interpreter binds the keywords of \<open>fn(**args)\<close> to the parameters before the body
  starts. A keyword that names no parameter and a parameter without default that gets no
  value both raise \<open>TypeError\<close>; the texts are those of CPython.
\<close>

fun show_nat :: "nat \<Rightarrow> string" where
  "show_nat n =
     (if n < 10 then [''0123456789'' ! n]
      else show_nat (n div 10) @ [''0123456789'' ! (n mod 10)])"

fun name_list :: "string list \<Rightarrow> string" where
  "name_list [] = []"
| "name_list [a] = [sq] @ a @ [sq]"
| "name_list [a, b] = [sq] @ a @ [sq] @ '' and '' @ [sq] @ b @ [sq]"
| "name_list (a # b # c # ns) =
     (if ns = [] then [sq] @ a @ [sq] @ '', '' @ [sq] @ b @ [sq] @ '', and '' @ [sq] @ c @ [sq]
      else [sq] @ a @ [sq] @ '', '' @ name_list (b # c # ns))"

definition unexpected :: "(string \<times> pyval option) list \<Rightarrow> (string \<times> pyval) list \<Rightarrow> string list" where
  "unexpected ps kw = filter (\<lambda>k. k \<notin> set (map fst ps)) (map fst kw)"

definition missing :: "(string \<times> pyval option) list \<Rightarrow> (string \<times> pyval) list \<Rightarrow> string list" where
  "missing ps kw = map fst (filter (\<lambda>(p, d). d = None \<and> map_of kw p = None) ps)"

fun bound_value :: "(string \<times> pyval) list \<Rightarrow> string \<times> pyval option \<Rightarrow> (string \<times> pyval) list" where
  "bound_value kw (p, d) =
     (case map_of kw p of
        Some v \<Rightarrow> [(p, v)]
      | None \<Rightarrow> (case d of Some dv \<Rightarrow> [(p, dv)] | None \<Rightarrow> []))"

definition bind ::
  "callable \<Rightarrow> (string \<times> pyval) list \<Rightarrow> exn + (string \<times> pyval) list" where
  "bind fn kw =
     (case unexpected (fn_params fn) kw of
        k # _ \<Rightarrow>
          Inl (TypeError (fn_name fn @ ''() got an unexpected keyword argument '' @ [sq] @ k @ [sq]))
      | [] \<Rightarrow>
          (case missing (fn_params fn) kw of
             [] \<Rightarrow> Inr (concat (map (bound_value kw) (fn_params fn)))
           | m # ms \<Rightarrow>
               Inl (TypeError (fn_name fn @ ''() missing '' @ show_nat (length (m # ms))
                      @ '' required positional argument''
                      @ (if ms = [] then [] else ''s'') @ '': '' @ name_list (m # ms)))))"

text \<open>
  The call \<open>fn(**args)\<close>: \<open>args\<close> must be a dictionary; once the keywords are bound the
  body runs, which is where the map service is contacted.
\<close>

definition call_kw :: "env \<Rightarrow> callable \<Rightarrow> pyval \<Rightarrow> trace \<Rightarrow> (exn + pyval) \<times> trace" where
  "call_kw E fn args tr =
     (case args of
        PDict kw \<Rightarrow>
          (case bind fn kw of
             Inl e \<Rightarrow> (Inl e, tr)
           | Inr bound \<Rightarrow>
               (tool_body E (length (body_runs tr)) (fn_name fn) bound,
                tr\<lparr>body_runs := body_runs tr @ [(fn_name fn, bound)]\<rparr>))
      | _ \<Rightarrow>
          (Inl (TypeError (fn_name fn @ ''() argument after ** must be a mapping, not ''
                  @ type_name args)), tr))"

section \<open>Agent logic: decide tool or direct answer, then explain\<close>

definition tool_text_part :: "env \<Rightarrow> string \<times> string \<times> (string \<times> string) list \<Rightarrow> string" where
  "tool_text_part E t =
     (case t of (name, description, args) \<Rightarrow>
        ''- '' @ name @ '':\<newline>''
        @ ''  description: '' @ description @ ''\<newline>''
        @ ''  args: '' @ json_dumps E (PDict (map (\<lambda>(k, d). (k, PStr d)) args)))"

definition build_system_prompt :: "env \<Rightarrow> string" where
  \<open>build_system_prompt E =
     (let tools_text = join ''\<newline>'' (map (tool_text_part E) tool_schema)
      in ''You are a geospatial assistant that can call a set of tools (map servers).\<newline>''
         @ ''Tools available:\<newline>''
         @ tools_text @ ''\<newline>\<newline>''
         @ ''You MUST decide if you need to call a tool.\<newline>''
         @ ''If you need a tool, respond ONLY with a JSON object of the form:\<newline>''
         @ ''{\<newline>''
         @ ''  "tool": "<tool_name>",\<newline>''
         @ ''  "args": { ... }\<newline>''
         @ ''}\<newline>''
         @ ''where <tool_name> is one of the tools above, and args contains only simple JSON types.\<newline>''
         @ ''If you can answer directly without tools (e.g., conceptual explanation), respond ONLY with:\<newline>''
         @ ''{ "answer": "<your natural language answer>" }\<newline>''
         @ ''Do not add any extra text outside the JSON. The JSON must be the entire response.'')\<close>

text \<open>
  Step 1: ask the model whether to call a tool, and which one. The reply is stripped and
  parsed; a reply that \<open>json.loads\<close> rejects with \<open>JSONDecodeError\<close> is wrapped as a
  direct answer, any other exception of the parser or of the chat call propagates.
\<close>

definition ask_llm_for_tool_or_answer ::
  "env \<Rightarrow> string \<Rightarrow> trace \<Rightarrow> (exn + pyval) \<times> trace" where
  "ask_llm_for_tool_or_answer E user_message tr =
     (let system_prompt = build_system_prompt E;
          messages = [(''system'', system_prompt), (''user'', user_message)]
      in case hf_chat E messages 512 tr of
           (Inl e, tr') \<Rightarrow> (Inl e, tr')
         | (Inr reply, tr') \<Rightarrow>
             (let text = strip reply
              in case json_loads E text of
                   Inr data \<Rightarrow> (Inr data, tr')
                 | Inl (JSONDecodeError m) \<Rightarrow> (Inr (PDict [(''answer'', PStr text)]), tr')
                 | Inl e \<Rightarrow> (Inl e, tr')))"

text \<open>Step 3: after calling the tool, ask the model to explain the result.\<close>

definition explain_prompt :: "env \<Rightarrow> string \<Rightarrow> string \<Rightarrow> pyval \<Rightarrow> pyval \<Rightarrow> string" where
  "explain_prompt E user_message tool_name args result =
     (let description = (case map_of tool_schema tool_name of
                           Some (d, a) \<Rightarrow> d
                         | None \<Rightarrow> [])
      in ''You are a geospatial assistant. A tool has been called on behalf of the user.\<newline>\<newline>''
         @ ''User message:\<newline>'' @ user_message @ ''\<newline>\<newline>''
         @ ''Tool used: '' @ tool_name @ ''\<newline>''
         @ ''Tool description: '' @ description @ ''\<newline>''
         @ ''Arguments: '' @ json_dumps E args @ ''\<newline>\<newline>''
         @ ''Raw tool result (JSON):\<newline>'' @ json_dumps E result @ ''\<newline>\<newline>''
         @ ''Now explain the result to the user in clear natural language. ''
         @ ''Summarize key distances, durations, coordinates, and any useful POI details. ''
         @ ''Do not show the raw JSON, just a human-readable explanation.'')"

definition ask_llm_to_explain_result ::
  "env \<Rightarrow> string \<Rightarrow> string \<Rightarrow> pyval \<Rightarrow> pyval \<Rightarrow> trace \<Rightarrow> (exn + pyval) \<times> trace" where
  "ask_llm_to_explain_result E user_message tool_name args result tr =
     (let messages = [(''system'', ''You are a helpful geospatial assistant.''),
                      (''user'', explain_prompt E user_message tool_name args result)]
      in case hf_chat E messages 512 tr of
           (Inl e, tr') \<Rightarrow> (Inl e, tr')
         | (Inr reply, tr') \<Rightarrow> (Inr (PStr (strip reply)), tr'))"

text \<open>The three texts that \<open>handle_user_message\<close> composes itself.\<close>

definition unknown_tool_text :: "string \<Rightarrow> string" where
  "unknown_tool_text name =
     ''I tried to call an unknown tool '' @ [sq] @ name @ [sq] @ ''. Please refine your request.''"

definition type_error_text :: "string \<Rightarrow> string \<Rightarrow> string \<Rightarrow> string" where
  "type_error_text name args_str detail =
     ''There was an error calling tool '' @ [sq] @ name @ [sq] @ '' with arguments ''
     @ args_str @ '': '' @ detail"

definition tool_failed_text :: "string \<Rightarrow> string \<Rightarrow> string" where
  "tool_failed_text name detail =
     ''Tool '' @ [sq] @ name @ [sq] @ '' failed with an exception: '' @ detail"

text \<open>
  The test of the direct answer path, \<open>"answer" in decision and "tool" not in decision\<close>;
  \<open>and\<close> does not evaluate its right side when the left one is false.
\<close>

definition is_direct_answer :: "pyval \<Rightarrow> exn + bool" where
  "is_direct_answer decision =
     (case py_in ''answer'' decision of
        Inl e \<Rightarrow> Inl e
      | Inr False \<Rightarrow> Inr False
      | Inr True \<Rightarrow>
          (case py_in ''tool'' decision of
             Inl e \<Rightarrow> Inl e
           | Inr b \<Rightarrow> Inr (\<not> b)))"

text \<open>
  The tool path from the catalog lookup on, for the values of \<open>tool_name\<close> and \<open>args\<close>
  read from the decision: unknown tool, call of the tool under the two handlers
  (\<open>TypeError\<close> first, then \<open>Exception\<close>), explanation.
\<close>

definition tool_path ::
  "env \<Rightarrow> string \<Rightarrow> pyval \<Rightarrow> pyval \<Rightarrow> trace \<Rightarrow> (exn + pyval) \<times> trace" where
  "tool_path E user_message tool_name args tr =
     (case lookup_tool tool_name of
        Inl e \<Rightarrow> (Inl e, tr)
      | Inr None \<Rightarrow> (Inr (PStr (unknown_tool_text (py_str E tool_name))), tr)
      | Inr (Some tool_fn) \<Rightarrow>
          (let name = py_str E tool_name;
               tr1 = tr\<lparr>tool_calls := tool_calls tr @ [(name, args)]\<rparr>
           in case call_kw E tool_fn args tr1 of
                (Inl (TypeError m), tr2) \<Rightarrow>
                  (Inr (PStr (type_error_text name (py_str E args) m)), tr2)
              | (Inl (BaseException m), tr2) \<Rightarrow> (Inl (BaseException m), tr2)
              | (Inl e, tr2) \<Rightarrow> (Inr (PStr (tool_failed_text name (exn_str e))), tr2)
              | (Inr result, tr2) \<Rightarrow>
                  ask_llm_to_explain_result E user_message name args result tr2))"

text \<open>Full agent flow for one user message.\<close>

definition handle_user_message :: "env \<Rightarrow> string \<Rightarrow> trace \<Rightarrow> (exn + pyval) \<times> trace" where
  "handle_user_message E user_message tr =
     (case ask_llm_for_tool_or_answer E user_message tr of
        (Inl e, tr1) \<Rightarrow> (Inl e, tr1)
      | (Inr decision, tr1) \<Rightarrow>
          (case is_direct_answer decision of
             Inl e \<Rightarrow> (Inl e, tr1)
           | Inr True \<Rightarrow>
               (case py_getitem decision ''answer'' of
                  Inl e \<Rightarrow> (Inl e, tr1)
                | Inr answer \<Rightarrow> (Inr answer, tr1))
           | Inr False \<Rightarrow>
               (case py_get decision ''tool'' PNone of
                  Inl e \<Rightarrow> (Inl e, tr1)
                | Inr tool_name \<Rightarrow>
                    (case py_get decision ''args'' (PDict []) of
                       Inl e \<Rightarrow> (Inl e, tr1)
                     | Inr a \<Rightarrow>
                         tool_path E user_message tool_name
                           (if truthy a then a else PDict []) tr1))))"

section \<open>The read-eval-print loop\<close>

text \<open>
  What \<open>input()\<close> can give: a line, or \<open>KeyboardInterrupt\<close>; at the end of the input it
  raises \<open>EOFError\<close>.
\<close>

datatype stdin_event = Line string | Interrupt

definition emit :: "string \<Rightarrow> trace \<Rightarrow> trace" where
  "emit s tr = tr\<lparr>stdout := stdout tr @ [s]\<rparr>"

text \<open>
  The \<open>while True\<close> loop of \<open>main\<close>; the result is the exception that leaves it, if any.
  The call of \<open>handle_user_message\<close> is under no handler.
\<close>

fun repl :: "env \<Rightarrow> stdin_event list \<Rightarrow> trace \<Rightarrow> exn option \<times> trace" where
  "repl E [] tr = (None, emit ''\<newline>Exiting.'' (emit ''You: '' tr))"
| "repl E (Interrupt # rest) tr = (None, emit ''\<newline>Exiting.'' (emit ''You: '' tr))"
| "repl E (Line l # rest) tr =
     (let tr1 = emit ''You: '' tr;
          user_input = strip l
      in if lower user_input \<in> {''quit'', ''exit''} then (None, emit ''Goodbye.'' tr1)
         else if user_input = [] then repl E rest tr1
         else (case handle_user_message E user_input tr1 of
                 (Inl e, tr2) \<Rightarrow> (Some e, tr2)
               | (Inr answer, tr2) \<Rightarrow>
                   repl E rest
                     (emit ''\<newline>---\<newline>''
                       (emit (py_str E answer)
                         (emit ''\<newline>Assistant:\<newline>'' tr2)))))"

definition main :: "env \<Rightarrow> stdin_event list \<Rightarrow> trace \<Rightarrow> exn option \<times> trace" where
  "main E stdin tr =
     repl E stdin
       (emit ''Type 'quit' or 'exit' to stop.\<newline>''
         (emit (''Map Assistant (Hugging Face model: '' @ MODEL_ID @ '')'') tr))"

section \<open>Observing a turn\<close>

text \<open>
  The messages of the decision call for a user message, and a trace extended by one
  chat call.
\<close>

definition decision_messages :: "env \<Rightarrow> string \<Rightarrow> (string \<times> string) list" where
  "decision_messages E user_message =
     [(''system'', build_system_prompt E), (''user'', user_message)]"

definition explain_messages ::
  "env \<Rightarrow> string \<Rightarrow> string \<Rightarrow> pyval \<Rightarrow> pyval \<Rightarrow> (string \<times> string) list" where
  "explain_messages E user_message tool_name args result =
     [(''system'', ''You are a helpful geospatial assistant.''),
      (''user'', explain_prompt E user_message tool_name args result)]"

definition chatted :: "(string \<times> string) list \<Rightarrow> trace \<Rightarrow> trace" where
  "chatted messages tr = tr\<lparr>chat_calls := chat_calls tr @ [(messages, 512)]\<rparr>"

text \<open>
  What a turn did, read off the effects between the trace before it and the trace after
  it: no tool was called (then the class carries what the turn returned or raised), a
  tool was called and no explanation was asked for (the turn returned an error text or
  raised), or a tool was called and the explanation stage ran (its text is the model's).
\<close>

datatype outcome =
    NoToolCall "exn + pyval"
  | ToolCallFailed "(string \<times> pyval) list" "exn + pyval"
  | ToolCallExplained "(string \<times> pyval) list"

definition outcome_of :: "trace \<Rightarrow> (exn + pyval) \<times> trace \<Rightarrow> outcome" where
  "outcome_of tr run =
     (let calls = drop (length (tool_calls tr)) (tool_calls (snd run));
          chats = length (chat_calls (snd run)) - length (chat_calls tr)
      in if calls = [] then NoToolCall (fst run)
         else if chats < 2 then ToolCallFailed calls (fst run)
         else ToolCallExplained calls)"

section \<open>A scripted world for concrete runs\<close>

text \<open>
  Concrete runs need a concrete world. The chat service answers from a script, one entry
  per call; the tool bodies all give one fixed outcome; \<open>json.loads\<close> and \<open>repr\<close> are
  tabulated on the texts and values that the runs below use (on those they are what
  Python computes; \<open>json.loads\<close> raises \<open>JSONDecodeError\<close> on the texts outside the
  table, none of which is JSON in these runs), and \<open>json.dumps\<close>, which only feeds the
  prompts that the scripted service ignores, is a placeholder.
\<close>

definition direct_reply :: string where
  \<open>direct_reply = ''{"answer": "Paris is the capital of France."}''\<close>

definition geocode_reply :: string where
  \<open>geocode_reply = ''{"tool": "osm_geocode", "args": {"query": "Eiffel Tower", "limit": 3}}''\<close>

definition teleport_reply :: string where
  \<open>teleport_reply = ''{"tool": "osm_teleport", "args": {}}''\<close>

definition half_route_reply :: string where
  \<open>half_route_reply =
     ''{"tool": "osrm_route_driving", "args": {"start_lat": 52.3667, "start_lon": 13.5033}}''\<close>

definition nearest_reply :: string where
  \<open>nearest_reply =
     ''{"tool": "osrm_nearest_road", "args": {"lat": 48.8582602, "lon": 2.2944991}}''\<close>

definition both_keys_reply :: string where
  \<open>both_keys_reply =
     ''{"answer": "Berlin is in Germany.", "tool": "osm_geocode", "args": {"query": "Berlin"}}''\<close>

definition array_reply :: string where
  "array_reply = ''[1]''"

definition prose_reply :: string where
  "prose_reply = ''  I can help with maps.\<newline>''"

definition geocode_args :: "(string \<times> pyval) list" where
  "geocode_args = [(''query'', PStr ''Eiffel Tower''), (''limit'', PInt 3)]"

definition half_route_args :: "(string \<times> pyval) list" where
  "half_route_args = [(''start_lat'', PFloat ''52.3667''), (''start_lon'', PFloat ''13.5033'')]"

definition nearest_args :: "(string \<times> pyval) list" where
  "nearest_args = [(''lat'', PFloat ''48.8582602''), (''lon'', PFloat ''2.2944991'')]"

definition berlin_args :: "(string \<times> pyval) list" where
  "berlin_args = [(''query'', PStr ''Berlin'')]"

definition sample_documents :: "(string \<times> pyval) list" where
  "sample_documents =
    [(direct_reply, PDict [(''answer'', PStr ''Paris is the capital of France.'')]),
     (geocode_reply, PDict [(''tool'', PStr ''osm_geocode''), (''args'', PDict geocode_args)]),
     (teleport_reply, PDict [(''tool'', PStr ''osm_teleport''), (''args'', PDict [])]),
     (half_route_reply,
      PDict [(''tool'', PStr ''osrm_route_driving''), (''args'', PDict half_route_args)]),
     (nearest_reply,
      PDict [(''tool'', PStr ''osrm_nearest_road''), (''args'', PDict nearest_args)]),
     (both_keys_reply,
      PDict [(''answer'', PStr ''Berlin is in Germany.''),
             (''tool'', PStr ''osm_geocode''),
             (''args'', PDict berlin_args)]),
     (array_reply, PList [PInt 1])]"

definition sample_loads :: "string \<Rightarrow> exn + pyval" where
  "sample_loads s =
     (case map_of sample_documents s of
        Some v \<Rightarrow> Inr v
      | None \<Rightarrow> Inl (JSONDecodeError ''Expecting value: line 1 column 1 (char 0)''))"

definition sample_reprs :: "(pyval \<times> string) list" where
  "sample_reprs =
    [(PDict half_route_args, ''{'start_lat': 52.3667, 'start_lon': 13.5033}''),
     (PDict [], ''{}''),
     (PNone, ''None'')]"

definition sample_repr :: "pyval \<Rightarrow> string" where
  "sample_repr v = (case map_of sample_reprs v of Some s \<Rightarrow> s | None \<Rightarrow> ''...'')"

definition scripted :: "(exn + string) list \<Rightarrow> nat \<Rightarrow> (string \<times> string) list \<Rightarrow> nat \<Rightarrow> exn + string" where
  "scripted replies n messages max_tokens =
     (if n < length replies then replies ! n else Inl (Exception ''Read timed out.''))"

definition sample_env :: "(exn + string) list \<Rightarrow> exn + pyval \<Rightarrow> env" where
  "sample_env replies tool_outcome =
     \<lparr>json_loads = sample_loads,
      json_dumps = (\<lambda>v. ''...''),
      py_repr = sample_repr,
      chat_completion = scripted replies,
      tool_body = (\<lambda>n name bound. tool_outcome)\<rparr>"

text \<open>The worlds of the concrete runs: the script of the chat service and the outcome of the tool bodies.\<close>

definition geocode_result :: pyval where
  "geocode_result =
     PList [PDict [(''lat'', PFloat ''48.8582599''), (''lon'', PFloat ''2.2945006'')]]"

definition nearest_result :: pyval where
  "nearest_result =
     PDict [(''snapped_lat'', PFloat ''48.858249''), (''snapped_lon'', PFloat ''2.294512''),
            (''distance_m'', PFloat ''3.4'')]"

definition geocode_world :: env where
  "geocode_world =
     sample_env [Inr geocode_reply, Inr ''The Eiffel Tower is at 48.858 N, 2.294 E.'']
       (Inr geocode_result)"

definition failing_tool_world :: env where
  "failing_tool_world =
     sample_env [Inr nearest_reply] (Inl (Exception ''OSRM returned no waypoints: {}''))"

definition half_route_world :: env where
  "half_route_world = sample_env [Inr half_route_reply] (Inr PNone)"

definition both_keys_world :: env where
  "both_keys_world =
     sample_env [Inr both_keys_reply, Inr ''Berlin is at 52.52 N, 13.40 E.''] (Inr (PList []))"

definition array_world :: env where
  "array_world = sample_env [Inr array_reply] (Inr PNone)"

definition offline_world :: env where
  "offline_world = sample_env [] (Inr PNone)"

definition nearest_world_a :: env where
  "nearest_world_a =
     sample_env [Inr nearest_reply, Inr ''The nearest road is 3 m away.''] (Inr nearest_result)"

definition nearest_world_b :: env where
  "nearest_world_b =
     sample_env [Inr nearest_reply, Inr ''You are 3 metres from the road.''] (Inr nearest_result)"

definition start :: trace where
  "start = \<lparr>chat_calls = [], tool_calls = [], body_runs = [], stdout = []\<rparr>"

section \<open>Properties of a turn\<close>

subsection \<open>Stages\<close>

lemma chatted_fields [simp]:
  "chat_calls (chatted ms tr) = chat_calls tr @ [(ms, 512)]"
  "tool_calls (chatted ms tr) = tool_calls tr"
  "body_runs (chatted ms tr) = body_runs tr"
  "stdout (chatted ms tr) = stdout tr"
  by (simp_all add: chatted_def)

lemma hf_chat_eq:
  "hf_chat E messages 512 tr =
     (chat_completion E (length (chat_calls tr)) messages 512, chatted messages tr)"
  by (simp add: hf_chat_def chatted_def)

lemma ask_parsed:
  assumes "chat_completion E (length (chat_calls tr)) (decision_messages E user_message) 512 = Inr reply"
    and "json_loads E (strip reply) = Inr data"
  shows "ask_llm_for_tool_or_answer E user_message tr =
           (Inr data, chatted (decision_messages E user_message) tr)"
  using assms
  by (simp add: ask_llm_for_tool_or_answer_def hf_chat_eq decision_messages_def Let_def)

lemma ask_not_json:
  assumes "chat_completion E (length (chat_calls tr)) (decision_messages E user_message) 512 = Inr reply"
    and "json_loads E (strip reply) = Inl (JSONDecodeError m)"
  shows "ask_llm_for_tool_or_answer E user_message tr =
           (Inr (PDict [(''answer'', PStr (strip reply))]),
            chatted (decision_messages E user_message) tr)"
  using assms
  by (simp add: ask_llm_for_tool_or_answer_def hf_chat_eq decision_messages_def Let_def)

lemma ask_chat_failed:
  assumes "chat_completion E (length (chat_calls tr)) (decision_messages E user_message) 512 = Inl e"
  shows "ask_llm_for_tool_or_answer E user_message tr =
           (Inl e, chatted (decision_messages E user_message) tr)"
  using assms
  by (simp add: ask_llm_for_tool_or_answer_def hf_chat_eq decision_messages_def Let_def)

lemma explain_eq:
  "ask_llm_to_explain_result E user_message tool_name args result tr =
     (case chat_completion E (length (chat_calls tr))
             (explain_messages E user_message tool_name args result) 512 of
        Inl e \<Rightarrow> Inl e
      | Inr reply \<Rightarrow> Inr (PStr (strip reply)),
      chatted (explain_messages E user_message tool_name args result) tr)"
  by (simp add: ask_llm_to_explain_result_def hf_chat_eq explain_messages_def Let_def
           split: sum.splits)

lemma handle_object:
  assumes "chat_completion E (length (chat_calls tr)) (decision_messages E user_message) 512 = Inr reply"
    and "json_loads E (strip reply) = Inr (PDict d)"
  shows "handle_user_message E user_message tr =
           (if map_of d ''answer'' \<noteq> None \<and> map_of d ''tool'' = None
            then (Inr (the (map_of d ''answer'')), chatted (decision_messages E user_message) tr)
            else tool_path E user_message
                   (case map_of d ''tool'' of Some t \<Rightarrow> t | None \<Rightarrow> PNone)
                   (case map_of d ''args'' of
                      Some a \<Rightarrow> if truthy a then a else PDict []
                    | None \<Rightarrow> PDict [])
                   (chatted (decision_messages E user_message) tr))"
  by (auto simp add: handle_user_message_def ask_parsed [OF assms] is_direct_answer_def
        split: option.splits)

subsection \<open>Direct answers\<close>

text \<open>
  Claim C2. When the reply of the decision call parses to an object that has an
  \<open>"answer"\<close> string and no \<open>"tool"\<close> key, \<open>handle_user_message\<close> returns exactly
  that string; the only effect of the turn is the decision call itself: no tool is
  called, no implementation body runs, no explanation is asked for.
\<close>

theorem direct_answer_returned_verbatim:
  assumes "chat_completion E (length (chat_calls tr)) (decision_messages E user_message) 512 = Inr reply"
    and "json_loads E (strip reply) = Inr (PDict d)"
    and "map_of d ''answer'' = Some (PStr text)"
    and "map_of d ''tool'' = None"
  shows "handle_user_message E user_message tr =
           (Inr (PStr text), chatted (decision_messages E user_message) tr)
         \<and> tool_calls (snd (handle_user_message E user_message tr)) = tool_calls tr
         \<and> body_runs (snd (handle_user_message E user_message tr)) = body_runs tr
         \<and> chat_calls (snd (handle_user_message E user_message tr)) =
             chat_calls tr @ [(decision_messages E user_message, 512)]"
  using assms(3,4) by (simp add: handle_object [OF assms(1,2)])

text \<open>Unfolding the scripted world.\<close>

lemmas sample_fields =
  sample_env_def scripted_def sample_loads_def sample_documents_def
  direct_reply_def geocode_reply_def teleport_reply_def half_route_reply_def
  nearest_reply_def both_keys_reply_def array_reply_def prose_reply_def
  geocode_args_def half_route_args_def nearest_args_def berlin_args_def
  geocode_result_def nearest_result_def geocode_world_def failing_tool_world_def
  half_route_world_def both_keys_world_def array_world_def offline_world_def
  nearest_world_a_def nearest_world_b_def
  strip_def is_space_def start_def

theorem direct_answer_returned_verbatim_witness:
  "chat_completion (sample_env [Inr direct_reply] (Inr PNone)) (length (chat_calls start))
     (decision_messages (sample_env [Inr direct_reply] (Inr PNone)) ''What is the capital of France?'') 512
     = Inr direct_reply
   \<and> json_loads (sample_env [Inr direct_reply] (Inr PNone)) (strip direct_reply)
     = Inr (PDict [(''answer'', PStr ''Paris is the capital of France.'')])
   \<and> map_of [(''answer'', PStr ''Paris is the capital of France.'')] ''answer''
     = Some (PStr ''Paris is the capital of France.'')
   \<and> map_of [(''answer'', PStr ''Paris is the capital of France.'')] ''tool'' = None
   \<and> fst (handle_user_message (sample_env [Inr direct_reply] (Inr PNone))
            ''What is the capital of France?'' start)
     = Inr (PStr ''Paris is the capital of France.'')
   \<and> tool_calls (snd (handle_user_message (sample_env [Inr direct_reply] (Inr PNone))
            ''What is the capital of France?'' start)) = []
   \<and> length (chat_calls (snd (handle_user_message (sample_env [Inr direct_reply] (Inr PNone))
            ''What is the capital of France?'' start))) = 1"
  using direct_answer_returned_verbatim
    [of "sample_env [Inr direct_reply] (Inr PNone)" start "''What is the capital of France?''"
        direct_reply "[(''answer'', PStr ''Paris is the capital of France.'')]"
        "''Paris is the capital of France.''"]
  by (simp add: sample_fields)

subsection \<open>Replies that are not JSON\<close>

text \<open>
  Claim C3, as the code has it. When \<open>json.loads\<close> rejects the reply of the decision call
  with \<open>JSONDecodeError\<close>, nothing is raised: the decision is the direct answer whose
  text is the reply with its leading and trailing whitespace removed (the reply is
  stripped before it is parsed and it is the stripped text that is wrapped), and
  \<open>handle_user_message\<close> returns that text.
\<close>

theorem not_json_reply_becomes_stripped_answer:
  assumes "chat_completion E (length (chat_calls tr)) (decision_messages E user_message) 512 = Inr reply"
    and "json_loads E (strip reply) = Inl (JSONDecodeError m)"
  shows "ask_llm_for_tool_or_answer E user_message tr =
           (Inr (PDict [(''answer'', PStr (strip reply))]),
            chatted (decision_messages E user_message) tr)
         \<and> handle_user_message E user_message tr =
           (Inr (PStr (strip reply)), chatted (decision_messages E user_message) tr)"
  by (simp add: handle_user_message_def ask_not_json [OF assms] is_direct_answer_def)

theorem not_json_reply_becomes_stripped_answer_witness:
  "chat_completion (sample_env [Inr prose_reply] (Inr PNone)) (length (chat_calls start))
     (decision_messages (sample_env [Inr prose_reply] (Inr PNone)) ''hello'') 512
     = Inr prose_reply
   \<and> json_loads (sample_env [Inr prose_reply] (Inr PNone)) (strip prose_reply)
     = Inl (JSONDecodeError ''Expecting value: line 1 column 1 (char 0)'')
   \<and> fst (ask_llm_for_tool_or_answer (sample_env [Inr prose_reply] (Inr PNone)) ''hello'' start)
     = Inr (PDict [(''answer'', PStr ''I can help with maps.'')])
   \<and> fst (handle_user_message (sample_env [Inr prose_reply] (Inr PNone)) ''hello'' start)
     = Inr (PStr ''I can help with maps.'')"
  using not_json_reply_becomes_stripped_answer
    [of "sample_env [Inr prose_reply] (Inr PNone)" start "''hello''" prose_reply
        "''Expecting value: line 1 column 1 (char 0)''"]
  by (simp add: sample_fields)

text \<open>
  The answer is not the raw reply: a reply of plain prose that starts with two spaces and
  ends with a newline comes back without them.
\<close>

theorem not_json_reply_not_verbatim:
  "json_loads (sample_env [Inr prose_reply] (Inr PNone)) (strip prose_reply)
     = Inl (JSONDecodeError ''Expecting value: line 1 column 1 (char 0)'')
   \<and> prose_reply = ''  I can help with maps.\<newline>''
   \<and> fst (handle_user_message (sample_env [Inr prose_reply] (Inr PNone)) ''hello'' start)
     = Inr (PStr ''I can help with maps.'')
   \<and> fst (handle_user_message (sample_env [Inr prose_reply] (Inr PNone)) ''hello'' start)
     \<noteq> Inr (PStr prose_reply)"
  by (simp add: handle_user_message_def ask_llm_for_tool_or_answer_def hf_chat_eq
        is_direct_answer_def sample_fields)

subsection \<open>The explanation stage\<close>

text \<open>
  Claim C8, as the code has it. \<open>ask_llm_to_explain_result\<close> returns the reply of the
  model with its leading and trailing whitespace removed, and nothing else is done to it.
\<close>

theorem explanation_is_stripped_reply:
  assumes "chat_completion E (length (chat_calls tr))
             (explain_messages E user_message tool_name args result) 512 = Inr reply"
  shows "ask_llm_to_explain_result E user_message tool_name args result tr =
           (Inr (PStr (strip reply)),
            chatted (explain_messages E user_message tool_name args result) tr)"
  using assms by (simp add: explain_eq)

theorem explanation_is_stripped_reply_witness:
  "chat_completion (sample_env [Inr ''The nearest road is 3 m away.''] (Inr PNone))
     (length (chat_calls start))
     (explain_messages (sample_env [Inr ''The nearest road is 3 m away.''] (Inr PNone))
        ''Where is the road?'' ''osrm_nearest_road'' (PDict []) PNone) 512
     = Inr ''The nearest road is 3 m away.''
   \<and> fst (ask_llm_to_explain_result (sample_env [Inr ''The nearest road is 3 m away.''] (Inr PNone))
        ''Where is the road?'' ''osrm_nearest_road'' (PDict []) PNone start)
     = Inr (PStr ''The nearest road is 3 m away.'')"
  using explanation_is_stripped_reply
    [of "sample_env [Inr ''The nearest road is 3 m away.''] (Inr PNone)" start
        "''Where is the road?''" "''osrm_nearest_road''" "PDict []" PNone
        "''The nearest road is 3 m away.''"]
  by (simp add: sample_fields)

text \<open>A reply with a leading space and a trailing newline is not returned verbatim.\<close>

theorem explanation_not_verbatim:
  "fst (ask_llm_to_explain_result
          (sample_env [Inr '' The nearest road is 3 m away.\<newline>''] (Inr PNone))
          ''Where is the road?'' ''osrm_nearest_road'' (PDict []) PNone start)
     = Inr (PStr ''The nearest road is 3 m away.'')
   \<and> fst (ask_llm_to_explain_result
          (sample_env [Inr '' The nearest road is 3 m away.\<newline>''] (Inr PNone))
          ''Where is the road?'' ''osrm_nearest_road'' (PDict []) PNone start)
     \<noteq> Inr (PStr '' The nearest road is 3 m away.\<newline>'')"
  by (simp add: explain_eq sample_fields)

subsection \<open>Unknown tools\<close>

lemma unknown_tool_text_mentions:
  "sublist name (unknown_tool_text name)"
  unfolding unknown_tool_text_def
  by (rule sublist_appendI [of name "''I tried to call an unknown tool '' @ [sq]"
        "[sq] @ ''. Please refine your request.''", simplified append_assoc])

text \<open>
  Claim C5. When the decision asks for a tool name \<open>T\<close> that is not a key of
  \<open>TOOL_FUNCTIONS\<close>, \<open>handle_user_message\<close> returns the apology that quotes \<open>T\<close>, a
  text that is not empty and contains \<open>T\<close>; no tool is called and no implementation
  body runs.
\<close>

theorem unknown_tool_reported:
  assumes "chat_completion E (length (chat_calls tr)) (decision_messages E user_message) 512 = Inr reply"
    and "json_loads E (strip reply) = Inr (PDict d)"
    and "map_of d ''tool'' = Some (PStr T)"
    and "map_of TOOL_FUNCTIONS T = None"
  shows "handle_user_message E user_message tr =
           (Inr (PStr (''I tried to call an unknown tool '' @ [sq] @ T @ [sq]
                         @ ''. Please refine your request.'')),
            chatted (decision_messages E user_message) tr)
         \<and> sublist T (''I tried to call an unknown tool '' @ [sq] @ T @ [sq]
                         @ ''. Please refine your request.'')
         \<and> ''I tried to call an unknown tool '' @ [sq] @ T @ [sq]
                         @ ''. Please refine your request.'' \<noteq> []
         \<and> tool_calls (snd (handle_user_message E user_message tr)) = tool_calls tr
         \<and> body_runs (snd (handle_user_message E user_message tr)) = body_runs tr"
  using assms(3,4) unknown_tool_text_mentions [of T, unfolded unknown_tool_text_def]
  by (simp add: handle_object [OF assms(1,2)] tool_path_def py_str_def unknown_tool_text_def
        del: sublist_Cons_right)

theorem unknown_tool_reported_witness:
  "chat_completion (sample_env [Inr teleport_reply] (Inr PNone)) (length (chat_calls start))
     (decision_messages (sample_env [Inr teleport_reply] (Inr PNone)) ''Beam me up'') 512
     = Inr teleport_reply
   \<and> json_loads (sample_env [Inr teleport_reply] (Inr PNone)) (strip teleport_reply)
     = Inr (PDict [(''tool'', PStr ''osm_teleport''), (''args'', PDict [])])
   \<and> map_of [(''tool'', PStr ''osm_teleport''), (''args'', PDict [])] ''tool''
     = Some (PStr ''osm_teleport'')
   \<and> map_of TOOL_FUNCTIONS ''osm_teleport'' = None
   \<and> fst (handle_user_message (sample_env [Inr teleport_reply] (Inr PNone)) ''Beam me up'' start)
     = Inr (PStr (''I tried to call an unknown tool 'osm_teleport'. Please refine your request.''))
   \<and> tool_calls (snd (handle_user_message (sample_env [Inr teleport_reply] (Inr PNone))
        ''Beam me up'' start)) = []
   \<and> body_runs (snd (handle_user_message (sample_env [Inr teleport_reply] (Inr PNone))
        ''Beam me up'' start)) = []"
  using unknown_tool_reported
    [of "sample_env [Inr teleport_reply] (Inr PNone)" start "''Beam me up''" teleport_reply
        "[(''tool'', PStr ''osm_teleport''), (''args'', PDict [])]" "''osm_teleport''"]
  by (simp add: sample_fields TOOL_FUNCTIONS_def sq_def)

subsection \<open>The tool path\<close>

text \<open>
  The tool path for a tool of the catalog and a dictionary of arguments, case by case:
  binding error, failure of the body under each handler, explanation.
\<close>

lemma tool_path_known:
  assumes "map_of TOOL_FUNCTIONS T = Some fn"
  shows "tool_path E user_message (PStr T) (PDict A) tr =
           (case bind fn A of
              Inl (TypeError m) \<Rightarrow>
                (Inr (PStr (type_error_text T (py_str E (PDict A)) m)),
                 tr\<lparr>tool_calls := tool_calls tr @ [(T, PDict A)]\<rparr>)
            | Inl e \<Rightarrow>
                (if (\<exists>m. e = BaseException m) then Inl e
                 else Inr (PStr (tool_failed_text T (exn_str e))),
                 tr\<lparr>tool_calls := tool_calls tr @ [(T, PDict A)]\<rparr>)
            | Inr bound \<Rightarrow>
                (case tool_body E (length (body_runs tr)) (fn_name fn) bound of
                   Inl (TypeError m) \<Rightarrow>
                     (Inr (PStr (type_error_text T (py_str E (PDict A)) m)),
                      tr\<lparr>tool_calls := tool_calls tr @ [(T, PDict A)],
                         body_runs := body_runs tr @ [(fn_name fn, bound)]\<rparr>)
                 | Inl (BaseException m) \<Rightarrow>
                     (Inl (BaseException m),
                      tr\<lparr>tool_calls := tool_calls tr @ [(T, PDict A)],
                         body_runs := body_runs tr @ [(fn_name fn, bound)]\<rparr>)
                 | Inl e \<Rightarrow>
                     (Inr (PStr (tool_failed_text T (exn_str e))),
                      tr\<lparr>tool_calls := tool_calls tr @ [(T, PDict A)],
                         body_runs := body_runs tr @ [(fn_name fn, bound)]\<rparr>)
                 | Inr result \<Rightarrow>
                     ask_llm_to_explain_result E user_message T (PDict A) result
                       (tr\<lparr>tool_calls := tool_calls tr @ [(T, PDict A)],
                           body_runs := body_runs tr @ [(fn_name fn, bound)]\<rparr>)))"
  using assms
  by (simp add: tool_path_def call_kw_def py_str_def Let_def split: sum.splits exn.splits)

lemma dict_or_empty [simp]:
  "(if A \<noteq> [] then PDict A else PDict []) = PDict A"
  "(if A = [] then PDict [] else PDict A) = PDict A"
  by simp_all

lemma bind_error_is_type_error:
  "bind fn A = Inl e \<Longrightarrow> \<exists>m. e = TypeError m"
  by (auto simp add: bind_def split: list.splits)

text \<open>
  Binding fails when a parameter without default gets no value or when a keyword names
  no parameter.
\<close>

lemma bind_fails:
  assumes "(\<exists>p \<in> set (fn_params fn). snd p = None \<and> map_of A (fst p) = None)
           \<or> (\<exists>k \<in> set (map fst A). k \<notin> set (map fst (fn_params fn)))"
  shows "\<exists>detail. bind fn A = Inl (TypeError detail)"
proof (cases "unexpected (fn_params fn) A")
  case (Cons k ks)
  then show ?thesis by (simp add: bind_def)
next
  case Nil
  then have "\<forall>k \<in> set (map fst A). k \<in> set (map fst (fn_params fn))"
    by (simp add: unexpected_def filter_empty_conv)
  with assms obtain p where p: "p \<in> set (fn_params fn)" "snd p = None" "map_of A (fst p) = None"
    by blast
  then have "p \<in> set (filter (\<lambda>(p, d). d = None \<and> map_of A p = None) (fn_params fn))"
    by (simp add: case_prod_beta)
  then have "missing (fn_params fn) A \<noteq> []"
    unfolding missing_def by (metis empty_iff list.set(1) map_is_Nil_conv)
  then obtain m ms where "missing (fn_params fn) A = m # ms"
    by (cases "missing (fn_params fn) A") auto
  with Nil show ?thesis by (simp add: bind_def)
qed

lemmas sample_more =
  sample_repr_def sample_reprs_def TOOL_FUNCTIONS_def bind_def unexpected_def missing_def
  osm_geocode_impl_def osrm_route_driving_impl_def osrm_nearest_road_impl_def sq_def

text \<open>
  Claim C1, as the code has it. When the decision names a tool \<open>T\<close> of the catalog with
  an argument mapping \<open>A\<close> that binds to the parameters of \<open>T\<close>, and the body of the tool
  returns a result, \<open>handle_user_message\<close> returns exactly what the explanation stage
  gives for that result; the tool is called once, with \<open>A\<close>, and its body runs once.
\<close>

theorem tool_result_explained:
  assumes "chat_completion E (length (chat_calls tr)) (decision_messages E user_message) 512 = Inr reply"
    and "json_loads E (strip reply) = Inr (PDict d)"
    and "map_of d ''tool'' = Some (PStr T)"
    and "map_of TOOL_FUNCTIONS T = Some fn"
    and "map_of d ''args'' = Some (PDict A)"
    and "bind fn A = Inr bound"
    and "tool_body E (length (body_runs tr)) (fn_name fn) bound = Inr result"
  shows "handle_user_message E user_message tr =
           ask_llm_to_explain_result E user_message T (PDict A) result
             ((chatted (decision_messages E user_message) tr)
                \<lparr>tool_calls := tool_calls tr @ [(T, PDict A)],
                 body_runs := body_runs tr @ [(fn_name fn, bound)]\<rparr>)
         \<and> tool_calls (snd (handle_user_message E user_message tr)) =
             tool_calls tr @ [(T, PDict A)]
         \<and> body_runs (snd (handle_user_message E user_message tr)) =
             body_runs tr @ [(fn_name fn, bound)]"
  using assms(3-7)
  by (simp add: handle_object [OF assms(1,2)] tool_path_known explain_eq)

theorem tool_result_explained_witness:
  "chat_completion geocode_world (length (chat_calls start))
     (decision_messages geocode_world ''Geocode the Eiffel Tower'') 512
     = Inr geocode_reply
   \<and> json_loads geocode_world (strip geocode_reply)
     = Inr (PDict [(''tool'', PStr ''osm_geocode''), (''args'', PDict geocode_args)])
   \<and> map_of [(''tool'', PStr ''osm_geocode''), (''args'', PDict geocode_args)] ''tool''
     = Some (PStr ''osm_geocode'')
   \<and> map_of TOOL_FUNCTIONS ''osm_geocode'' = Some osm_geocode_impl
   \<and> map_of [(''tool'', PStr ''osm_geocode''), (''args'', PDict geocode_args)] ''args''
     = Some (PDict geocode_args)
   \<and> bind osm_geocode_impl geocode_args = Inr geocode_args
   \<and> tool_body geocode_world (length (body_runs start)) (fn_name osm_geocode_impl) geocode_args
     = Inr geocode_result
   \<and> fst (handle_user_message geocode_world ''Geocode the Eiffel Tower'' start)
     = Inr (PStr ''The Eiffel Tower is at 48.858 N, 2.294 E.'')
   \<and> tool_calls (snd (handle_user_message geocode_world ''Geocode the Eiffel Tower'' start))
     = [(''osm_geocode'', PDict geocode_args)]
   \<and> body_runs (snd (handle_user_message geocode_world ''Geocode the Eiffel Tower'' start))
     = [(''osm_geocode_impl'', geocode_args)]"
  using tool_result_explained
    [of geocode_world start "''Geocode the Eiffel Tower''" geocode_reply
        "[(''tool'', PStr ''osm_geocode''), (''args'', PDict geocode_args)]"
        "''osm_geocode''" osm_geocode_impl geocode_args geocode_args geocode_result]
  by (simp add: explain_eq sample_fields sample_more)

text \<open>
  Binding alone is not enough: when the body of the tool raises (here the map service
  has no waypoint), the turn returns the failure text and the explanation stage never
  runs, although the tool is in the catalog and the arguments bind.
\<close>

theorem tool_failure_not_explained:
  "json_loads failing_tool_world (strip nearest_reply)
     = Inr (PDict [(''tool'', PStr ''osrm_nearest_road''), (''args'', PDict nearest_args)])
   \<and> map_of TOOL_FUNCTIONS ''osrm_nearest_road'' = Some osrm_nearest_road_impl
   \<and> bind osrm_nearest_road_impl nearest_args
     = Inr (nearest_args @ [(''profile'', PStr ''driving'')])
   \<and> fst (handle_user_message failing_tool_world ''Where is the nearest road?'' start)
     = Inr (PStr
         ''Tool 'osrm_nearest_road' failed with an exception: OSRM returned no waypoints: {}'')
   \<and> tool_calls (snd (handle_user_message failing_tool_world ''Where is the nearest road?'' start))
     = [(''osrm_nearest_road'', PDict nearest_args)]
   \<and> length (chat_calls
        (snd (handle_user_message failing_tool_world ''Where is the nearest road?'' start)))
     = 1"
  by (simp add: handle_user_message_def ask_llm_for_tool_or_answer_def hf_chat_eq
        is_direct_answer_def tool_path_def call_kw_def py_str_def tool_failed_text_def
        sample_fields sample_more)

subsection \<open>Arguments that do not bind\<close>

text \<open>
  Claim C6. For a tool \<open>T\<close> of the catalog and an argument mapping \<open>A\<close> that misses a
  required parameter or carries a keyword that is no parameter, the \<open>TypeError\<close> of the
  call is caught: \<open>handle_user_message\<close> returns the text that names \<open>T\<close>, shows \<open>A\<close>
  and ends with the detail of the error, and no implementation body runs, so no map
  service is contacted.
\<close>

theorem binding_failure_reported:
  assumes "chat_completion E (length (chat_calls tr)) (decision_messages E user_message) 512 = Inr reply"
    and "json_loads E (strip reply) = Inr (PDict d)"
    and "map_of d ''tool'' = Some (PStr T)"
    and "map_of TOOL_FUNCTIONS T = Some fn"
    and "map_of d ''args'' = Some (PDict A)"
    and "(\<exists>p \<in> set (fn_params fn). snd p = None \<and> map_of A (fst p) = None)
         \<or> (\<exists>k \<in> set (map fst A). k \<notin> set (map fst (fn_params fn)))"
  shows "\<exists>detail.
           bind fn A = Inl (TypeError detail)
           \<and> handle_user_message E user_message tr =
               (Inr (PStr (''There was an error calling tool '' @ [sq] @ T @ [sq]
                           @ '' with arguments '' @ py_str E (PDict A) @ '': '' @ detail)),
                (chatted (decision_messages E user_message) tr)
                  \<lparr>tool_calls := tool_calls tr @ [(T, PDict A)]\<rparr>)
           \<and> body_runs (snd (handle_user_message E user_message tr)) = body_runs tr"
proof -
  from bind_fails [OF assms(6)] obtain detail where "bind fn A = Inl (TypeError detail)" ..
  with assms(3-5) show ?thesis
    by (simp add: handle_object [OF assms(1,2)] tool_path_known type_error_text_def)
qed

theorem binding_failure_reported_witness:
  "chat_completion half_route_world (length (chat_calls start))
     (decision_messages half_route_world ''Route from the airport'') 512
     = Inr half_route_reply
   \<and> json_loads half_route_world (strip half_route_reply)
     = Inr (PDict [(''tool'', PStr ''osrm_route_driving''), (''args'', PDict half_route_args)])
   \<and> map_of [(''tool'', PStr ''osrm_route_driving''), (''args'', PDict half_route_args)] ''tool''
     = Some (PStr ''osrm_route_driving'')
   \<and> map_of TOOL_FUNCTIONS ''osrm_route_driving'' = Some osrm_route_driving_impl
   \<and> map_of [(''tool'', PStr ''osrm_route_driving''), (''args'', PDict half_route_args)] ''args''
     = Some (PDict half_route_args)
   \<and> (''end_lat'', None) \<in> set (fn_params osrm_route_driving_impl)
   \<and> map_of half_route_args ''end_lat'' = None
   \<and> fst (handle_user_message half_route_world ''Route from the airport'' start)
     = Inr (PStr (''There was an error calling tool 'osrm_route_driving' with arguments ''
                  @ ''{'start_lat': 52.3667, 'start_lon': 13.5033}: ''
                  @ ''osrm_route_driving_impl() missing 2 required positional arguments: ''
                  @ [sq] @ ''end_lat'' @ [sq] @ '' and '' @ [sq] @ ''end_lon'' @ [sq]))
   \<and> tool_calls (snd (handle_user_message half_route_world ''Route from the airport'' start))
     = [(''osrm_route_driving'', PDict half_route_args)]
   \<and> body_runs (snd (handle_user_message half_route_world ''Route from the airport'' start))
     = []"
  using binding_failure_reported
    [of half_route_world start "''Route from the airport''" half_route_reply
        "[(''tool'', PStr ''osrm_route_driving''), (''args'', PDict half_route_args)]"
        "''osrm_route_driving''" osrm_route_driving_impl half_route_args]
  by (simp add: py_str_def sample_fields sample_more)

subsection \<open>Which branch is taken\<close>

text \<open>
  Claim C10. For a decision object, the direct answer branch is taken only when
  \<open>"answer"\<close> is a key and \<open>"tool"\<close> is not: in every other case, in particular when
  both keys are present, the turn is the tool path on the values of \<open>"tool"\<close> and
  \<open>"args"\<close>, in which the answer text does not occur.
\<close>

theorem tool_key_takes_tool_path:
  assumes "chat_completion E (length (chat_calls tr)) (decision_messages E user_message) 512 = Inr reply"
    and "json_loads E (strip reply) = Inr (PDict d)"
    and "map_of d ''answer'' = None \<or> map_of d ''tool'' \<noteq> None"
  shows "handle_user_message E user_message tr =
           tool_path E user_message
             (case map_of d ''tool'' of Some t \<Rightarrow> t | None \<Rightarrow> PNone)
             (case map_of d ''args'' of
                Some a \<Rightarrow> if truthy a then a else PDict []
              | None \<Rightarrow> PDict [])
             (chatted (decision_messages E user_message) tr)"
  using assms(3) by (auto simp add: handle_object [OF assms(1,2)])

theorem tool_key_takes_tool_path_witness:
  "chat_completion both_keys_world (length (chat_calls start))
     (decision_messages both_keys_world ''Where is Berlin?'') 512
     = Inr both_keys_reply
   \<and> json_loads both_keys_world (strip both_keys_reply)
     = Inr (PDict [(''answer'', PStr ''Berlin is in Germany.''),
                   (''tool'', PStr ''osm_geocode''), (''args'', PDict berlin_args)])
   \<and> map_of [(''answer'', PStr ''Berlin is in Germany.''),
              (''tool'', PStr ''osm_geocode''), (''args'', PDict berlin_args)] ''answer''
     = Some (PStr ''Berlin is in Germany.'')
   \<and> map_of [(''answer'', PStr ''Berlin is in Germany.''),
              (''tool'', PStr ''osm_geocode''), (''args'', PDict berlin_args)] ''tool''
     = Some (PStr ''osm_geocode'')
   \<and> fst (handle_user_message both_keys_world ''Where is Berlin?'' start)
     = Inr (PStr ''Berlin is at 52.52 N, 13.40 E.'')
   \<and> tool_calls (snd (handle_user_message both_keys_world ''Where is Berlin?'' start))
     = [(''osm_geocode'', PDict berlin_args)]"
  using tool_key_takes_tool_path
    [of both_keys_world start "''Where is Berlin?''" both_keys_reply
        "[(''answer'', PStr ''Berlin is in Germany.''),
          (''tool'', PStr ''osm_geocode''), (''args'', PDict berlin_args)]"]
  by (simp add: tool_path_def call_kw_def py_str_def explain_eq Let_def sample_fields sample_more)

subsection \<open>Decisions that are not objects\<close>

text \<open>
  A reply that parses to something else than an object makes the turn raise: the
  membership tests of the direct answer path fail on a number, a boolean or \<open>None\<close>,
  indexing by \<open>"answer"\<close> fails on a list or a string, and none of them has \<open>get\<close>.
\<close>

lemma non_object_decision_raises:
  assumes "chat_completion E (length (chat_calls tr)) (decision_messages E user_message) 512 = Inr reply"
    and "json_loads E (strip reply) = Inr v"
    and "\<forall>d. v \<noteq> PDict d"
  shows "\<exists>e. handle_user_message E user_message tr =
               (Inl e, chatted (decision_messages E user_message) tr)"
  using assms(3)
  by (cases v)
     (auto simp add: handle_user_message_def ask_parsed [OF assms(1,2)] is_direct_answer_def
        split: bool.splits)

text \<open>
  Claim C4 fails on the code: the reply \<open>[1]\<close> is valid JSON, matches neither shape,
  and \<open>handle_user_message\<close> raises \<open>AttributeError\<close> on it.
\<close>

theorem array_reply_raises:
  "json_loads array_world (strip array_reply) = Inr (PList [PInt 1])
   \<and> fst (handle_user_message array_world ''hello'' start)
     = Inl (AttributeError
         ([sq] @ ''list'' @ [sq] @ '' object has no attribute '' @ [sq] @ ''get'' @ [sq]))"
  by (simp add: handle_user_message_def ask_llm_for_tool_or_answer_def hf_chat_eq
        is_direct_answer_def sample_fields)

subsection \<open>Failures of the chat service\<close>

text \<open>
  No stage catches a failure of the chat service: it leaves \<open>handle_user_message\<close> as
  an exception, from the decision stage and from the explanation stage alike.
\<close>

lemma decision_failure_propagates:
  assumes "chat_completion E (length (chat_calls tr)) (decision_messages E user_message) 512 = Inl e"
  shows "handle_user_message E user_message tr =
           (Inl e, chatted (decision_messages E user_message) tr)"
  by (simp add: handle_user_message_def ask_chat_failed [OF assms])

lemma explanation_failure_propagates:
  assumes "chat_completion E (length (chat_calls tr))
             (explain_messages E user_message tool_name args result) 512 = Inl e"
  shows "ask_llm_to_explain_result E user_message tool_name args result tr =
           (Inl e, chatted (explain_messages E user_message tool_name args result) tr)"
  using assms by (simp add: explain_eq)

text \<open>
  Claim C7, as the code has it. When \<open>handle_user_message\<close> raises in a turn, as it does
  when the chat service fails, the exception leaves the loop of \<open>main\<close> at once: the loop
  ends with that exception, nothing more is printed, and the rest of the input is never
  read.
\<close>

theorem repl_ends_on_failed_turn:
  assumes "strip l \<noteq> []"
    and "lower (strip l) \<notin> {''quit'', ''exit''}"
    and "handle_user_message E (strip l) (emit ''You: '' tr) = (Inl e, tr')"
  shows "repl E (Line l # rest) tr = (Some e, tr')"
  using assms by (simp add: Let_def)

theorem repl_ends_on_failed_turn_witness:
  "strip ''hi'' \<noteq> []
   \<and> lower (strip ''hi'') \<notin> {''quit'', ''exit''}
   \<and> handle_user_message offline_world (strip ''hi'') (emit ''You: '' start)
     = (Inl (Exception ''Read timed out.''),
        chatted (decision_messages offline_world ''hi'') (emit ''You: '' start))
   \<and> repl offline_world [Line ''hi'', Line ''again''] start
     = (Some (Exception ''Read timed out.''),
        chatted (decision_messages offline_world ''hi'') (emit ''You: '' start))"
  using repl_ends_on_failed_turn
    [of "''hi''" offline_world start "Exception ''Read timed out.''"
        "chatted (decision_messages offline_world ''hi'') (emit ''You: '' start)"
        "[Line ''again'']"]
    decision_failure_propagates
    [of offline_world "emit ''You: '' start" "''hi''" "Exception ''Read timed out.''"]
  by (simp add: sample_fields emit_def lower_def lower_char_def)

text \<open>
  The loop does not stay alive for the next turn: with the chat service down and two
  lines of input, \<open>main\<close> ends with the exception of the first turn after one prompt and
  one chat call; the second line is never asked for.
\<close>

theorem main_dies_with_the_turn:
  "fst (main offline_world [Line ''hi'', Line ''again''] start)
     = Some (Exception ''Read timed out.'')
   \<and> count_list (stdout (snd (main offline_world [Line ''hi'', Line ''again''] start)))
       ''You: '' = 1
   \<and> length (chat_calls (snd (main offline_world [Line ''hi'', Line ''again''] start))) = 1"
  by (simp add: main_def Let_def handle_user_message_def ask_llm_for_tool_or_answer_def
        hf_chat_eq sample_fields emit_def lower_def lower_char_def MODEL_ID_def)

subsection \<open>The outcome class of a turn\<close>

lemma ask_eq:
  "ask_llm_for_tool_or_answer E user_message tr =
     (case chat_completion E (length (chat_calls tr)) (decision_messages E user_message) 512 of
        Inl e \<Rightarrow> Inl e
      | Inr reply \<Rightarrow>
          (case json_loads E (strip reply) of
             Inr data \<Rightarrow> Inr data
           | Inl (JSONDecodeError m) \<Rightarrow> Inr (PDict [(''answer'', PStr (strip reply))])
           | Inl e \<Rightarrow> Inl e),
      chatted (decision_messages E user_message) tr)"
  by (simp add: ask_llm_for_tool_or_answer_def hf_chat_eq decision_messages_def Let_def
        split: sum.splits exn.splits)

lemma call_kw_trace:
  "tool_calls (snd (call_kw E fn args tr)) = tool_calls tr"
  "chat_calls (snd (call_kw E fn args tr)) = chat_calls tr"
  by (simp_all add: call_kw_def split: pyval.splits sum.splits)

lemma call_kw_result_agree:
  assumes "tool_body E1 (length (body_runs t1)) = tool_body E2 (length (body_runs t2))"
  shows "fst (call_kw E1 fn args t1) = fst (call_kw E2 fn args t2)"
  using assms by (simp add: call_kw_def split: pyval.splits sum.splits)

lemma outcome_of_no_call:
  assumes "tool_calls t = tool_calls s"
  shows "outcome_of s (x, t) = NoToolCall x"
  using assms by (simp add: outcome_of_def)

lemma outcome_of_failed_call:
  assumes "tool_calls t = tool_calls s @ [c]"
    and "length (chat_calls t) = Suc (length (chat_calls s))"
  shows "outcome_of s (x, t) = ToolCallFailed [c] x"
  using assms by (simp add: outcome_of_def)

lemma outcome_of_explained_call:
  assumes "tool_calls t = tool_calls s @ [c]"
    and "length (chat_calls t) = Suc (Suc (length (chat_calls s)))"
  shows "outcome_of s (x, t) = ToolCallExplained [c]"
  using assms by (simp add: outcome_of_def)

text \<open>
  The class of the tool path depends on the catalog lookup and on the result of the call
  only, not on the reply of the explanation stage or on the trace before the turn.
\<close>

lemma tool_path_outcome:
  assumes "tool_calls t = tool_calls s"
    and "length (chat_calls t) = Suc (length (chat_calls s))"
  shows "outcome_of s (tool_path E user_message tool_name args t) =
     (case lookup_tool tool_name of
        Inl e \<Rightarrow> NoToolCall (Inl e)
      | Inr None \<Rightarrow> NoToolCall (Inr (PStr (unknown_tool_text (py_str E tool_name))))
      | Inr (Some fn) \<Rightarrow>
          (case fst (call_kw E fn args
                       (t\<lparr>tool_calls := tool_calls t @ [(py_str E tool_name, args)]\<rparr>)) of
             Inl (TypeError m) \<Rightarrow>
               ToolCallFailed [(py_str E tool_name, args)]
                 (Inr (PStr (type_error_text (py_str E tool_name) (py_str E args) m)))
           | Inl (BaseException m) \<Rightarrow>
               ToolCallFailed [(py_str E tool_name, args)] (Inl (BaseException m))
           | Inl e \<Rightarrow>
               ToolCallFailed [(py_str E tool_name, args)]
                 (Inr (PStr (tool_failed_text (py_str E tool_name) (exn_str e))))
           | Inr result \<Rightarrow> ToolCallExplained [(py_str E tool_name, args)]))"
proof (cases "lookup_tool tool_name")
  case (Inl e)
  then show ?thesis
    by (simp add: tool_path_def outcome_of_no_call [OF assms(1)])
next
  case (Inr found)
  show ?thesis
  proof (cases found)
    case None
    with Inr show ?thesis
      by (simp add: tool_path_def outcome_of_no_call [OF assms(1)])
  next
    case (Some fn)
    let ?c = "(py_str E tool_name, args)"
    let ?t1 = "t\<lparr>tool_calls := tool_calls t @ [?c]\<rparr>"
    obtain x t2 where run: "call_kw E fn args ?t1 = (x, t2)"
      by (cases "call_kw E fn args ?t1")
    have calls: "tool_calls t2 = tool_calls s @ [?c]"
      using call_kw_trace(1) [of E fn args ?t1] run assms(1) by simp
    have chats: "length (chat_calls t2) = Suc (length (chat_calls s))"
      using call_kw_trace(2) [of E fn args ?t1] run assms(2) by simp
    have path: "tool_path E user_message tool_name args t =
        (case x of
           Inl (TypeError m) \<Rightarrow>
             (Inr (PStr (type_error_text (py_str E tool_name) (py_str E args) m)), t2)
         | Inl (BaseException m) \<Rightarrow> (Inl (BaseException m), t2)
         | Inl e \<Rightarrow> (Inr (PStr (tool_failed_text (py_str E tool_name) (exn_str e))), t2)
         | Inr result \<Rightarrow>
             ask_llm_to_explain_result E user_message (py_str E tool_name) args result t2)"
      using Inr Some run by (simp add: tool_path_def Let_def)
    show ?thesis
    proof (cases x)
      case (Inl e)
      with Inr Some run path show ?thesis
        by (cases e) (simp_all add: outcome_of_failed_call [OF calls chats])
    next
      case (Inr result)
      have "outcome_of s
              (ask_llm_to_explain_result E user_message (py_str E tool_name) args result t2)
            = ToolCallExplained [?c]"
        unfolding explain_eq
        by (rule outcome_of_explained_call) (simp_all add: calls chats)
      with \<open>lookup_tool tool_name = Inr found\<close> Some run path Inr show ?thesis
        by simp
    qed
  qed
qed

lemma py_str_agree:
  "py_repr E1 = py_repr E2 \<Longrightarrow> py_str E1 = py_str E2"
  by (rule ext) (simp add: py_str_def split: pyval.splits)

text \<open>
  Claim C9. Take two turns on the same user message, in any two worlds and after any two
  histories, such that the standard library is the same, the decision call gets the same
  reply and the tool bodies behave the same. Then both turns have the same outcome
  class: neither calls a tool and both return or raise the same, or both call the same
  tool with the same arguments and fail with the same text or exception, or both call
  it and reach the explanation stage (whose text may differ).
\<close>

theorem same_outcome_class:
  assumes "json_loads E1 = json_loads E2"
    and "py_repr E1 = py_repr E2"
    and "chat_completion E1 (length (chat_calls tr1)) (decision_messages E1 user_message) 512 =
         chat_completion E2 (length (chat_calls tr2)) (decision_messages E2 user_message) 512"
    and "tool_body E1 (length (body_runs tr1)) = tool_body E2 (length (body_runs tr2))"
  shows "outcome_of tr1 (handle_user_message E1 user_message tr1) =
         outcome_of tr2 (handle_user_message E2 user_message tr2)"
proof -
  let ?t1 = "chatted (decision_messages E1 user_message) tr1"
  let ?t2 = "chatted (decision_messages E2 user_message) tr2"
  note strs = py_str_agree [OF assms(2)]
  have calls: "fst (call_kw E1 fn a (?t1\<lparr>tool_calls := tool_calls ?t1 @ [c]\<rparr>)) =
               fst (call_kw E2 fn a (?t2\<lparr>tool_calls := tool_calls ?t2 @ [c]\<rparr>))" for fn a c
    by (rule call_kw_result_agree) (simp add: assms(4))
  have paths: "outcome_of tr1 (tool_path E1 user_message tn a ?t1) =
               outcome_of tr2 (tool_path E2 user_message tn a ?t2)" for tn a
  proof -
    have o1: "tool_calls ?t1 = tool_calls tr1" "length (chat_calls ?t1) = Suc (length (chat_calls tr1))"
      by simp_all
    have o2: "tool_calls ?t2 = tool_calls tr2" "length (chat_calls ?t2) = Suc (length (chat_calls tr2))"
      by simp_all
    show ?thesis
      unfolding tool_path_outcome [OF o1] tool_path_outcome [OF o2] strs calls ..
  qed
  have plain: "outcome_of tr1 (x, ?t1) = outcome_of tr2 (x, ?t2)" for x
    by (simp add: outcome_of_no_call)
  show ?thesis
    unfolding handle_user_message_def ask_eq assms(1) assms(3)
    by (simp add: paths plain split: sum.splits bool.splits)
qed

theorem same_outcome_class_witness:
  "json_loads nearest_world_a = json_loads nearest_world_b
   \<and> py_repr nearest_world_a = py_repr nearest_world_b
   \<and> chat_completion nearest_world_a (length (chat_calls start))
       (decision_messages nearest_world_a ''Where is the nearest road?'') 512
     = chat_completion nearest_world_b (length (chat_calls start))
       (decision_messages nearest_world_b ''Where is the nearest road?'') 512
   \<and> tool_body nearest_world_a (length (body_runs start))
     = tool_body nearest_world_b (length (body_runs start))
   \<and> outcome_of start (handle_user_message nearest_world_a ''Where is the nearest road?'' start)
     = outcome_of start (handle_user_message nearest_world_b ''Where is the nearest road?'' start)
   \<and> outcome_of start (handle_user_message nearest_world_a ''Where is the nearest road?'' start)
     = ToolCallExplained [(''osrm_nearest_road'', PDict nearest_args)]
   \<and> fst (handle_user_message nearest_world_a ''Where is the nearest road?'' start)
     = Inr (PStr ''The nearest road is 3 m away.'')
   \<and> fst (handle_user_message nearest_world_b ''Where is the nearest road?'' start)
     = Inr (PStr ''You are 3 metres from the road.'')"
  using same_outcome_class
    [of nearest_world_a nearest_world_b start "''Where is the nearest road?''" start]
  by (simp add: handle_user_message_def ask_eq is_direct_answer_def tool_path_def call_kw_def
        py_str_def explain_eq outcome_of_def Let_def sample_fields sample_more)

end
